theory Spec2Isabelle
  imports Complex_Main
begin

section \<open>Python values used by the scorer\<close>

text \<open>
  \<^verbatim>\<open>compute_ai_usefulness\<close> returns a Python \<^verbatim>\<open>int\<close> on its ordinary path and the
  \<^verbatim>\<open>float\<close> constant \<^verbatim>\<open>3.0\<close> on the hard-stop path. Both are kept apart here; the only
  float that ever occurs is \<open>3.0\<close>, which is exact, so it is represented by a real.
  \<open>num_value\<close> is the number a value denotes (Python's \<^verbatim>\<open>6 == 6.0\<close> is true).
\<close>

datatype pynum = PyInt int | PyFloat real

fun num_value :: "pynum \<Rightarrow> real" where
  "num_value (PyInt i) = of_int i"
| "num_value (PyFloat x) = x"

section \<open>Strings\<close>

text \<open>
  A text is the list of the bytes of its UTF-8 encoding (Isabelle characters are bytes).
  \<open>lower\<close> is \<^verbatim>\<open>str.lower()\<close> as far as ASCII is concerned:
  \<^item> the ASCII capitals go to their small letters, every other ASCII character stays;
  \<^item> U+212A KELVIN SIGN (bytes E2 84 AA) lowers to the ASCII letter k;
  \<^item> U+0130 LATIN CAPITAL LETTER I WITH DOT ABOVE (bytes C4 B0) lowers to the ASCII
    letter i followed by U+0307 (bytes CC 87).

  These two are the only code points beyond ASCII whose lowering contains an ASCII
  character. Every other code point beyond ASCII lowers to code points beyond ASCII, all of
  whose bytes are at least 0x80; \<open>lower\<close> does not carry that table and leaves such bytes
  as they are. Every trigger phrase is ASCII, so which bytes at or above 0x80 stand between
  the ASCII characters of the lowered text changes no match. The theorems about every input
  do not rest on \<open>lower\<close>: they are stated for an arbitrary lowered text \<open>t\<close>, or
  their proofs never look into \<open>lower text\<close>.
\<close>

definition lower_char :: "char \<Rightarrow> char" where
  "lower_char c =
     (case map_of (zip ''ABCDEFGHIJKLMNOPQRSTUVWXYZ'' ''abcdefghijklmnopqrstuvwxyz'') c of
        Some l \<Rightarrow> l
      | None \<Rightarrow> c)"

definition kelvin_sign :: string where
  "kelvin_sign = [CHR 0xE2, CHR 0x84, CHR 0xAA]"

definition capital_i_with_dot :: string where
  "capital_i_with_dot = [CHR 0xC4, CHR 0xB0]"

definition small_i_with_dot :: string where
  "small_i_with_dot = [CHR ''i'', CHR 0xCC, CHR 0x87]"

fun lower :: "string \<Rightarrow> string" where
  "lower (a # b # c # cs) =
     (if [a, b, c] = kelvin_sign then CHR ''k'' # lower cs
      else if [a, b] = capital_i_with_dot then small_i_with_dot @ lower (c # cs)
      else lower_char a # lower (b # c # cs))"
| "lower [a, b] =
     (if [a, b] = capital_i_with_dot then small_i_with_dot
      else [lower_char a, lower_char b])"
| "lower [a] = [lower_char a]"
| "lower [] = []"

declare lower.simps [simp del]

text \<open>\<open>startswith t phrase\<close> is \<^verbatim>\<open>t.startswith(phrase)\<close>.\<close>

fun startswith :: "string \<Rightarrow> string \<Rightarrow> bool" where
  "startswith t [] = True"
| "startswith [] (p # ps) = False"
| "startswith (c # cs) (p # ps) = (c = p \<and> startswith cs ps)"

text \<open>\<open>is_in phrase t\<close> is Python's \<^verbatim>\<open>phrase in t\<close> on strings: a scan over every start position.\<close>

fun is_in :: "string \<Rightarrow> string \<Rightarrow> bool" where
  "is_in phrase [] = (phrase = [])"
| "is_in phrase (c # cs) = (startswith (c # cs) phrase \<or> is_in phrase cs)"

text \<open>\<open>any_in terms t\<close> is \<^verbatim>\<open>any(term in t for term in terms)\<close>.\<close>

definition any_in :: "string list \<Rightarrow> string \<Rightarrow> bool" where
  "any_in terms t = list_ex (\<lambda>phrase. is_in phrase t) terms"

text \<open>\<open>count_in terms t\<close> is \<^verbatim>\<open>sum(term in t for term in terms)\<close>: each \<^verbatim>\<open>True\<close> counts 1.\<close>

definition count_in :: "string list \<Rightarrow> string \<Rightarrow> int" where
  "count_in terms t = sum_list (map (\<lambda>phrase. if is_in phrase t then 1 else 0) terms)"

section \<open>Trigger phrases\<close>

definition time_critical_terms :: "string list" where
  "time_critical_terms =
    [''code blue'', ''cardiac arrest'', ''pulseless'', ''pea'', ''vfib'', ''v-fib'',
     ''vtach'', ''v-tach'', ''rapid response'', ''rrt'', ''stat'', ''immediately'',
     ''right now'', ''need to decide now'', ''crashing'', ''severe hypotension'',
     ''shock'', ''tpa'', ''t-pa'', ''alteplase'', ''stroke code'', ''activate stroke'',
     ''massive bleed'', ''massive hemor'', ''massive hemorrhage'', ''intubate now'',
     ''emergent intubation'', ''emergent cath'', ''stemi activation'']"

definition medium_urgency_terms :: "string list" where
  "medium_urgency_terms = [''today'', ''within the hour'', ''this hour'', ''soon'', ''acutely'']"

definition high_risk_terms :: "string list" where
  "high_risk_terms =
    [''tpa'', ''thrombolysis'', ''thrombolytics'', ''alteplase'',
     ''push dose'', ''push-dose'', ''bolus pressor'', ''pressors'', ''vasopressor'',
     ''levophed'', ''norepinephrine'', ''epinephrine'', ''dopamine'', ''dobutamine'',
     ''amiodarone bolus'', ''lidocaine bolus'', ''chemo'', ''chemotherapy'',
     ''intubate'', ''extubate'', ''ecmo'', ''lvad'', ''vent settings'', ''crrt'',
     ''dialysis initiation'', ''emergent surgery'']"

definition low_risk_terms :: "string list" where
  "low_risk_terms =
    [''explain'', ''counsel'', ''board prep'', ''studying'', ''education'', ''for teaching'',
     ''for teaching purposes'', ''long-term management'', ''in general'', ''overall strategy'']"

definition protocol_terms :: "string list" where
  "protocol_terms =
    [''hospital protocol'', ''institutional protocol'', ''order set'', ''orderset'',
     ''nomogram'', ''policy'', ''local protocol'', ''stroke protocol'',
     ''sepsis bundle'', ''vent weaning protocol'', ''insulin drip protocol'',
     ''heparin drip protocol'', ''dka protocol'']"

definition mixed_terms :: "string list" where
  "mixed_terms = [''our hospital'', ''at our institution'', ''formulary'']"

definition evidence_terms :: "string list" where
  "evidence_terms =
    [''evidence'', ''literature'', ''trial'', ''trials'', ''rct'', ''randomized'',
     ''meta-analysis'', ''meta analysis'', ''systematic review'', ''cohort study'',
     ''compare'', ''comparison'', ''noninferior'', ''non-inferior'',
     ''superior'', ''mortality benefit'', ''outcomes of'', ''hazard ratio'',
     ''guideline'', ''guidelines'', ''class i recommendation'', ''class ii'', ''class 1'',
     ''aha'', ''acc'', ''esc'', ''chest guideline'']"

definition teaching_terms :: "string list" where
  "teaching_terms =
    [''explain to a patient'', ''explain to patient'', ''how to explain'',
     ''how to counsel'', ''counseling'', ''patient-friendly'', ''plain language'',
     ''teach an intern'', ''teach a medical student'', ''for teaching'', ''for education'',
     ''board prep'', ''for studying'', ''moc'', ''simple explanation'', ''lay terms'']"

definition mild_edu_terms :: "string list" where
  "mild_edu_terms =
    [''understand the mechanism'', ''pathophysiology'', ''why does'', ''mechanism of'']"

section \<open>Rationale strings\<close>

text \<open>The arrow of the messages is U+2192, here its three UTF-8 bytes.\<close>

definition arrow :: string where
  "arrow = [CHR 0xE2, CHR 0x86, CHR 0x92]"

definition reason_time_critical :: string where
  "reason_time_critical =
     ''Detected **time-critical / crashing context** '' @ arrow @ '' urgency set to HIGH.''"

definition reason_time_moderate :: string where
  "reason_time_moderate =
     ''Detected **some time pressure** '' @ arrow @ '' urgency set to MODERATE.''"

definition reason_time_low :: string where
  "reason_time_low = ''No strong urgency language '' @ arrow @ '' urgency set to LOW.''"

definition reason_risk_high :: string where
  "reason_risk_high =
     ''Detected **high-stakes intervention language** '' @ arrow @ '' risk level set to HIGH.''"

definition reason_risk_low :: string where
  "reason_risk_low =
     ''Detected **educational / low-risk framing** '' @ arrow @ '' risk level set to LOW.''"

definition reason_risk_moderate :: string where
  "reason_risk_moderate =
     ''No extreme risk terms detected '' @ arrow @ '' risk level set to MODERATE.''"

definition reason_protocol_low :: string where
  "reason_protocol_low =
     ''Detected **hospital-specific / protocol language** '' @ arrow
       @ '' protocol-independence set to LOW.''"

definition reason_protocol_moderate :: string where
  "reason_protocol_moderate =
     ''Detected **some local context language** '' @ arrow
       @ '' protocol-independence set to MODERATE.''"

definition reason_protocol_high :: string where
  "reason_protocol_high =
     ''No protocol language '' @ arrow @ '' protocol-independence set to HIGH.''"

definition reason_evidence_high :: string where
  "reason_evidence_high =
     ''Multiple **evidence/guideline cues** detected '' @ arrow
       @ '' evidence-orientation set to HIGH.''"

definition reason_evidence_moderate :: string where
  "reason_evidence_moderate =
     ''Some **evidence/guideline language** '' @ arrow
       @ '' evidence-orientation set to MODERATE.''"

definition reason_evidence_low :: string where
  "reason_evidence_low =
     ''No obvious evidence/guideline cues '' @ arrow @ '' evidence-orientation set to LOW.''"

definition reason_edu_high :: string where
  "reason_edu_high =
     ''Detected **teaching / patient-education focus** '' @ arrow
       @ '' educational-frame set to HIGH.''"

definition reason_edu_moderate :: string where
  "reason_edu_moderate =
     ''Detected **mechanism / understanding focus** '' @ arrow
       @ '' educational-frame set to MODERATE.''"

definition reason_edu_low :: string where
  "reason_edu_low =
     ''No explicit educational framing '' @ arrow @ '' educational-frame set to LOW.''"

section \<open>The dimension analyzer\<close>

text \<open>The dictionary \<^verbatim>\<open>analyze_dimensions\<close> returns, with its seven keys.\<close>

record analysis =
  time_urgency :: int
  risk_level :: int
  protocol_independence :: int
  evidence_orientation :: int
  educational_frame :: int
  reasons :: "string list"
  hard_stop :: bool

text \<open>
  The five blocks of the function body, in the order they run. Each takes the lowered text
  and the local variables it may change (\<^verbatim>\<open>reasons\<close>, and \<^verbatim>\<open>hard_stop\<close> for the first two
  blocks) and returns its dimension's score with the updated locals.
\<close>

definition time_urgency_block :: "string \<Rightarrow> string list \<Rightarrow> bool \<Rightarrow> int \<times> string list \<times> bool" where
  "time_urgency_block t rs hs =
     (if any_in time_critical_terms t then (0, rs @ [reason_time_critical], True)
      else if any_in medium_urgency_terms t then (1, rs @ [reason_time_moderate], hs)
      else (2, rs @ [reason_time_low], hs))"

definition risk_level_block :: "string \<Rightarrow> string list \<Rightarrow> bool \<Rightarrow> int \<times> string list \<times> bool" where
  "risk_level_block t rs hs =
     (if any_in high_risk_terms t then (0, rs @ [reason_risk_high], True)
      else if any_in low_risk_terms t then (2, rs @ [reason_risk_low], hs)
      else (1, rs @ [reason_risk_moderate], hs))"

definition protocol_block :: "string \<Rightarrow> string list \<Rightarrow> int \<times> string list" where
  "protocol_block t rs =
     (if any_in protocol_terms t then (0, rs @ [reason_protocol_low])
      else if any_in mixed_terms t then (1, rs @ [reason_protocol_moderate])
      else (2, rs @ [reason_protocol_high]))"

definition evidence_block :: "string \<Rightarrow> string list \<Rightarrow> int \<times> string list" where
  "evidence_block t rs =
     (if any_in evidence_terms t then
        (let hit_count = count_in evidence_terms t in
         if hit_count \<ge> 2 then (2, rs @ [reason_evidence_high])
         else (1, rs @ [reason_evidence_moderate]))
      else (0, rs @ [reason_evidence_low]))"

definition educational_block :: "string \<Rightarrow> string list \<Rightarrow> int \<times> string list" where
  "educational_block t rs =
     (if any_in teaching_terms t then (2, rs @ [reason_edu_high])
      else if any_in mild_edu_terms t then (1, rs @ [reason_edu_moderate])
      else (0, rs @ [reason_edu_low]))"

text \<open>
  \<open>analyze_lowered t\<close> is the body of \<^verbatim>\<open>analyze_dimensions\<close> after its first statement
  \<^verbatim>\<open>t = text.lower()\<close>: everything the function does with the lowered text \<open>t\<close>.
\<close>

definition analyze_lowered :: "string \<Rightarrow> analysis" where
  "analyze_lowered t =
     (let rs0 = [];
          hs0 = False;
          (tu, rs1, hs1) = time_urgency_block t rs0 hs0;
          (rl, rs2, hs2) = risk_level_block t rs1 hs1;
          (pri, rs3) = protocol_block t rs2;
          (eo, rs4) = evidence_block t rs3;
          (ef, rs5) = educational_block t rs4
      in \<lparr> time_urgency = tu, risk_level = rl, protocol_independence = pri,
           evidence_orientation = eo, educational_frame = ef,
           reasons = rs5, hard_stop = hs2 \<rparr>)"

definition analyze_dimensions :: "string \<Rightarrow> analysis" where
  "analyze_dimensions text = (let t = lower text in analyze_lowered t)"

section \<open>The analyzer on an explicit store\<close>

text \<open>
  The same function body once more, now with the one object it mutates kept in a store.
  \<^verbatim>\<open>reasons = []\<close> creates a list object, each \<^verbatim>\<open>reasons.append(...)\<close> extends that object
  in place, and the dictionary returned holds a reference to it. A store is the sequence
  of the list objects that exist, an address is a position in it; the caller, or an earlier
  invocation, may have put anything there. The other locals (\<^verbatim>\<open>t\<close>, \<^verbatim>\<open>hard_stop\<close>, the five
  scores) hold immutable values and are rebound, not mutated; the phrase lists are created
  by each invocation from literals and only read, and stay values here. The body reads no
  global name but the built-ins \<^verbatim>\<open>any\<close> and \<^verbatim>\<open>sum\<close>.
\<close>

type_synonym store = "string list list"

text \<open>\<^verbatim>\<open>[]\<close>: a new empty list object, at the first free address.\<close>

definition new_list :: "store \<Rightarrow> nat \<times> store" where
  "new_list h = (length h, h @ [[]])"

text \<open>
  \<^verbatim>\<open>a.append(s)\<close> on the list object at address \<open>a\<close>. A Python reference always points
  to a live object; an address outside the store leaves the store as it is.
\<close>

definition list_append :: "nat \<Rightarrow> string \<Rightarrow> store \<Rightarrow> store" where
  "list_append a s h = (if a < length h then h[a := h ! a @ [s]] else h)"

text \<open>The dictionary returned: \<open>ref_reasons\<close> is the address of the rationale list.\<close>

record analysis_ref =
  ref_time_urgency :: int
  ref_risk_level :: int
  ref_protocol_independence :: int
  ref_evidence_orientation :: int
  ref_educational_frame :: int
  ref_reasons :: nat
  ref_hard_stop :: bool

text \<open>What a caller reads from a returned dictionary \<open>d\<close> in the store \<open>h\<close>.\<close>

definition deref :: "store \<Rightarrow> analysis_ref \<Rightarrow> analysis" where
  "deref h d =
     \<lparr> time_urgency = ref_time_urgency d, risk_level = ref_risk_level d,
       protocol_independence = ref_protocol_independence d,
       evidence_orientation = ref_evidence_orientation d,
       educational_frame = ref_educational_frame d,
       reasons = h ! ref_reasons d, hard_stop = ref_hard_stop d \<rparr>"

definition time_urgency_step :: "string \<Rightarrow> nat \<Rightarrow> bool \<Rightarrow> store \<Rightarrow> int \<times> bool \<times> store" where
  "time_urgency_step t reasons_at hs h =
     (if any_in time_critical_terms t
      then (0, True, list_append reasons_at reason_time_critical h)
      else if any_in medium_urgency_terms t
      then (1, hs, list_append reasons_at reason_time_moderate h)
      else (2, hs, list_append reasons_at reason_time_low h))"

definition risk_level_step :: "string \<Rightarrow> nat \<Rightarrow> bool \<Rightarrow> store \<Rightarrow> int \<times> bool \<times> store" where
  "risk_level_step t reasons_at hs h =
     (if any_in high_risk_terms t
      then (0, True, list_append reasons_at reason_risk_high h)
      else if any_in low_risk_terms t
      then (2, hs, list_append reasons_at reason_risk_low h)
      else (1, hs, list_append reasons_at reason_risk_moderate h))"

definition protocol_step :: "string \<Rightarrow> nat \<Rightarrow> store \<Rightarrow> int \<times> store" where
  "protocol_step t reasons_at h =
     (if any_in protocol_terms t
      then (0, list_append reasons_at reason_protocol_low h)
      else if any_in mixed_terms t
      then (1, list_append reasons_at reason_protocol_moderate h)
      else (2, list_append reasons_at reason_protocol_high h))"

definition evidence_step :: "string \<Rightarrow> nat \<Rightarrow> store \<Rightarrow> int \<times> store" where
  "evidence_step t reasons_at h =
     (if any_in evidence_terms t then
        (let hit_count = count_in evidence_terms t in
         if hit_count \<ge> 2 then (2, list_append reasons_at reason_evidence_high h)
         else (1, list_append reasons_at reason_evidence_moderate h))
      else (0, list_append reasons_at reason_evidence_low h))"

definition educational_step :: "string \<Rightarrow> nat \<Rightarrow> store \<Rightarrow> int \<times> store" where
  "educational_step t reasons_at h =
     (if any_in teaching_terms t
      then (2, list_append reasons_at reason_edu_high h)
      else if any_in mild_edu_terms t
      then (1, list_append reasons_at reason_edu_moderate h)
      else (0, list_append reasons_at reason_edu_low h))"

text \<open>
  One invocation, started in the store \<open>h0\<close>: the dictionary returned and the store left
  behind.
\<close>

definition analyze_dimensions_call :: "string \<Rightarrow> store \<Rightarrow> analysis_ref \<times> store" where
  "analyze_dimensions_call text h0 =
     (let t = lower text;
          (reasons_at, h1) = new_list h0;
          hs0 = False;
          (tu, hs1, h2) = time_urgency_step t reasons_at hs0 h1;
          (rl, hs2, h3) = risk_level_step t reasons_at hs1 h2;
          (pri, h4) = protocol_step t reasons_at h3;
          (eo, h5) = evidence_step t reasons_at h4;
          (ef, h6) = educational_step t reasons_at h5
      in (\<lparr> ref_time_urgency = tu, ref_risk_level = rl, ref_protocol_independence = pri,
            ref_evidence_orientation = eo, ref_educational_frame = ef,
            ref_reasons = reasons_at, ref_hard_stop = hs2 \<rparr>, h6))"

section \<open>The score aggregator\<close>

text \<open>
  The argument \<open>d\<close> is the dictionary \<^verbatim>\<open>dim\<close>; \<open>pri\<close> is the local \<^verbatim>\<open>pi\<close>. The local
  \<^verbatim>\<open>score\<close> is assigned twice, then once more on the hard-stop path.
\<close>

definition compute_ai_usefulness :: "analysis \<Rightarrow> pynum" where
  "compute_ai_usefulness d =
     (let tu = time_urgency d;
          rl = risk_level d;
          pri = protocol_independence d;
          eo = evidence_orientation d;
          ef = educational_frame d;
          score = (2 - tu) * 2 + rl * 2 + pri * 2 + eo * 2 + ef * 1;
          score = max 0 (min 10 score)
      in if hard_stop d \<and> score > 3 then PyFloat 3.0 else PyInt score)"

section \<open>The specification's words\<close>

text \<open>
  The weighting formula and the clamp as the specification writes them, to be compared
  with what \<open>compute_ai_usefulness\<close> computes.
\<close>

definition spec_raw :: "analysis \<Rightarrow> int" where
  "spec_raw d =
     (2 - time_urgency d) * 2 + risk_level d * 2 + protocol_independence d * 2
       + evidence_orientation d * 2 + educational_frame d * 1"

definition spec_clamp :: "int \<Rightarrow> int" where
  "spec_clamp raw = max 0 (min 10 raw)"

text \<open>A DimensionScores value of the specification: each of the five fields in \<open>[0, 2]\<close>.\<close>

definition scores_in_range :: "analysis \<Rightarrow> bool" where
  "scores_in_range d \<longleftrightarrow>
     0 \<le> time_urgency d \<and> time_urgency d \<le> 2 \<and>
     0 \<le> risk_level d \<and> risk_level d \<le> 2 \<and>
     0 \<le> protocol_independence d \<and> protocol_independence d \<le> 2 \<and>
     0 \<le> evidence_orientation d \<and> evidence_orientation d \<le> 2 \<and>
     0 \<le> educational_frame d \<and> educational_frame d \<le> 2"

text \<open>\<open>substring phrase t\<close>: the phrase occurs in \<open>t\<close> as a contiguous run of characters.\<close>

definition substring :: "string \<Rightarrow> string \<Rightarrow> bool" where
  "substring phrase t \<longleftrightarrow> (\<exists>ps ss. t = ps @ phrase @ ss)"

text \<open>The rationale strings of each dimension, one per tier.\<close>

definition time_reasons :: "string list" where
  "time_reasons = [reason_time_critical, reason_time_moderate, reason_time_low]"

definition risk_reasons :: "string list" where
  "risk_reasons = [reason_risk_high, reason_risk_low, reason_risk_moderate]"

definition protocol_reasons :: "string list" where
  "protocol_reasons = [reason_protocol_low, reason_protocol_moderate, reason_protocol_high]"

definition evidence_reasons :: "string list" where
  "evidence_reasons = [reason_evidence_high, reason_evidence_moderate, reason_evidence_low]"

definition edu_reasons :: "string list" where
  "edu_reasons = [reason_edu_high, reason_edu_moderate, reason_edu_low]"

section \<open>Substring search\<close>

lemma startswith_iff: "startswith t p \<longleftrightarrow> (\<exists>ss. t = p @ ss)"
  by (induction t p rule: startswith.induct) auto

lemma is_in_iff: "is_in p t \<longleftrightarrow> (\<exists>ps ss. t = ps @ p @ ss)"
proof (induction t)
  case Nil
  show ?case by auto
next
  case (Cons c cs)
  have "(\<exists>ps ss. c # cs = ps @ p @ ss) \<longleftrightarrow>
        (\<exists>ss. c # cs = p @ ss) \<or> (\<exists>ps ss. cs = ps @ p @ ss)"
  proof
    assume "\<exists>ps ss. c # cs = ps @ p @ ss"
    then obtain ps ss where eq: "c # cs = ps @ p @ ss" by blast
    show "(\<exists>ss. c # cs = p @ ss) \<or> (\<exists>ps ss. cs = ps @ p @ ss)"
    proof (cases ps)
      case Nil
      with eq show ?thesis by auto
    next
      case (Cons q qs)
      with eq have "cs = qs @ p @ ss" by simp
      then show ?thesis by blast
    qed
  next
    assume "(\<exists>ss. c # cs = p @ ss) \<or> (\<exists>ps ss. cs = ps @ p @ ss)"
    then show "\<exists>ps ss. c # cs = ps @ p @ ss"
    proof
      assume "\<exists>ss. c # cs = p @ ss"
      then obtain ss where "c # cs = [] @ p @ ss" by auto
      then show ?thesis by blast
    next
      assume "\<exists>ps ss. cs = ps @ p @ ss"
      then obtain ps ss where "c # cs = (c # ps) @ p @ ss" by auto
      then show ?thesis by blast
    qed
  qed
  with Cons show ?case by (simp add: startswith_iff)
qed

lemma is_in_substring: "is_in p t \<longleftrightarrow> substring p t"
  by (simp add: is_in_iff substring_def)

lemma any_in_iff: "any_in terms t \<longleftrightarrow> (\<exists>p \<in> set terms. substring p t)"
  by (simp add: any_in_def list_ex_iff is_in_substring)

lemma count_in_filter: "count_in terms t = int (length (filter (\<lambda>p. is_in p t) terms))"
  unfolding count_in_def by (induction terms) auto

lemma any_in_count: "any_in terms t \<longleftrightarrow> 0 < count_in terms t"
  by (auto simp: any_in_def list_ex_iff count_in_filter filter_empty_conv)

lemma count_in_card:
  "distinct terms \<Longrightarrow> count_in terms t = int (card {p \<in> set terms. substring p t})"
  by (simp add: count_in_filter distinct_length_filter Int_def conj_commute is_in_substring)

lemma distinct_evidence_terms: "distinct evidence_terms"
  by (simp add: evidence_terms_def)

section \<open>What the analyzer returns, field by field\<close>

lemma time_urgency_analyze:
  "time_urgency (analyze_lowered t) =
     (if any_in time_critical_terms t then 0
      else if any_in medium_urgency_terms t then 1 else 2)"
  by (simp add: analyze_lowered_def time_urgency_block_def Let_def split: prod.splits)

lemma risk_level_analyze:
  "risk_level (analyze_lowered t) =
     (if any_in high_risk_terms t then 0
      else if any_in low_risk_terms t then 2 else 1)"
  by (simp add: analyze_lowered_def risk_level_block_def Let_def split: prod.splits)

lemma protocol_independence_analyze:
  "protocol_independence (analyze_lowered t) =
     (if any_in protocol_terms t then 0
      else if any_in mixed_terms t then 1 else 2)"
  by (simp add: analyze_lowered_def protocol_block_def Let_def split: prod.splits)

lemma evidence_orientation_analyze:
  "evidence_orientation (analyze_lowered t) =
     (if any_in evidence_terms t then
        if count_in evidence_terms t \<ge> 2 then 2 else 1
      else 0)"
  by (simp add: analyze_lowered_def evidence_block_def Let_def split: prod.splits)

lemma educational_frame_analyze:
  "educational_frame (analyze_lowered t) =
     (if any_in teaching_terms t then 2
      else if any_in mild_edu_terms t then 1 else 0)"
  by (simp add: analyze_lowered_def educational_block_def Let_def split: prod.splits)

lemma hard_stop_analyze:
  "hard_stop (analyze_lowered t) \<longleftrightarrow>
     any_in time_critical_terms t \<or> any_in high_risk_terms t"
  by (auto simp: analyze_lowered_def time_urgency_block_def risk_level_block_def Let_def
      split: prod.splits if_splits)

lemma reasons_analyze:
  "reasons (analyze_lowered t) =
     [if any_in time_critical_terms t then reason_time_critical
       else if any_in medium_urgency_terms t then reason_time_moderate else reason_time_low,
       if any_in high_risk_terms t then reason_risk_high
       else if any_in low_risk_terms t then reason_risk_low else reason_risk_moderate,
       if any_in protocol_terms t then reason_protocol_low
       else if any_in mixed_terms t then reason_protocol_moderate else reason_protocol_high,
       if any_in evidence_terms t then
         if count_in evidence_terms t \<ge> 2 then reason_evidence_high else reason_evidence_moderate
       else reason_evidence_low,
       if any_in teaching_terms t then reason_edu_high
       else if any_in mild_edu_terms t then reason_edu_moderate else reason_edu_low]"
  by (simp add: analyze_lowered_def time_urgency_block_def risk_level_block_def
      protocol_block_def evidence_block_def educational_block_def Let_def split: prod.splits)

section \<open>What the aggregator returns\<close>

lemma compute_ai_usefulness_eq:
  "compute_ai_usefulness d =
     (if hard_stop d \<and> spec_clamp (spec_raw d) > 3 then PyFloat 3
      else PyInt (spec_clamp (spec_raw d)))"
  by (simp add: compute_ai_usefulness_def spec_raw_def spec_clamp_def Let_def)

section \<open>The rationale strings are pairwise different\<close>

lemma distinct_rationales:
  "distinct (time_reasons @ risk_reasons @ protocol_reasons @ evidence_reasons @ edu_reasons)"
  by (simp add: time_reasons_def risk_reasons_def protocol_reasons_def evidence_reasons_def
      edu_reasons_def reason_time_critical_def reason_time_moderate_def reason_time_low_def
      reason_risk_high_def reason_risk_low_def reason_risk_moderate_def
      reason_protocol_low_def reason_protocol_moderate_def reason_protocol_high_def
      reason_evidence_high_def reason_evidence_moderate_def reason_evidence_low_def
      reason_edu_high_def reason_edu_moderate_def reason_edu_low_def)

lemma block_appends_one:
  "\<exists>r \<in> set time_reasons. fst (snd (time_urgency_block t rs hs)) = rs @ [r]"
  "\<exists>r \<in> set risk_reasons. fst (snd (risk_level_block t rs hs)) = rs @ [r]"
  "\<exists>r \<in> set protocol_reasons. snd (protocol_block t rs) = rs @ [r]"
  "\<exists>r \<in> set evidence_reasons. snd (evidence_block t rs) = rs @ [r]"
  "\<exists>r \<in> set edu_reasons. snd (educational_block t rs) = rs @ [r]"
  by (simp_all add: time_urgency_block_def risk_level_block_def protocol_block_def
      evidence_block_def educational_block_def time_reasons_def risk_reasons_def
      protocol_reasons_def evidence_reasons_def edu_reasons_def Let_def)

section \<open>The store version returns what the value version returns\<close>

lemma list_append_nth:
  "a < length h \<Longrightarrow> list_append a s h ! a = h ! a @ [s]"
  by (simp add: list_append_def)

lemma list_append_length: "length (list_append a s h) = length h"
  by (simp add: list_append_def)

lemma list_append_other: "b \<noteq> a \<Longrightarrow> list_append a s h ! b = h ! b"
  by (simp add: list_append_def)

lemma time_urgency_step_block:
  "time_urgency_step t a hs h = (tu, hs', h') \<Longrightarrow>
     length h' = length h \<and> (\<forall>b. b \<noteq> a \<longrightarrow> h' ! b = h ! b) \<and>
     (a < length h \<longrightarrow> time_urgency_block t (h ! a) hs = (tu, h' ! a, hs'))"
  by (auto simp: time_urgency_step_def time_urgency_block_def list_append_nth
      list_append_length list_append_other split: if_splits)

lemma risk_level_step_block:
  "risk_level_step t a hs h = (rl, hs', h') \<Longrightarrow>
     length h' = length h \<and> (\<forall>b. b \<noteq> a \<longrightarrow> h' ! b = h ! b) \<and>
     (a < length h \<longrightarrow> risk_level_block t (h ! a) hs = (rl, h' ! a, hs'))"
  by (auto simp: risk_level_step_def risk_level_block_def list_append_nth
      list_append_length list_append_other split: if_splits)

lemma protocol_step_block:
  "protocol_step t a h = (pri, h') \<Longrightarrow>
     length h' = length h \<and> (\<forall>b. b \<noteq> a \<longrightarrow> h' ! b = h ! b) \<and>
     (a < length h \<longrightarrow> protocol_block t (h ! a) = (pri, h' ! a))"
  by (auto simp: protocol_step_def protocol_block_def list_append_nth
      list_append_length list_append_other split: if_splits)

lemma evidence_step_block:
  "evidence_step t a h = (eo, h') \<Longrightarrow>
     length h' = length h \<and> (\<forall>b. b \<noteq> a \<longrightarrow> h' ! b = h ! b) \<and>
     (a < length h \<longrightarrow> evidence_block t (h ! a) = (eo, h' ! a))"
  by (auto simp: evidence_step_def evidence_block_def list_append_nth
      list_append_length list_append_other Let_def split: if_splits)

lemma educational_step_block:
  "educational_step t a h = (ef, h') \<Longrightarrow>
     length h' = length h \<and> (\<forall>b. b \<noteq> a \<longrightarrow> h' ! b = h ! b) \<and>
     (a < length h \<longrightarrow> educational_block t (h ! a) = (ef, h' ! a))"
  by (auto simp: educational_step_def educational_block_def list_append_nth
      list_append_length list_append_other split: if_splits)

text \<open>
  An invocation started in any store returns a dictionary that reads as the value
  version's result, puts the rationale list at an address that did not exist before, and
  leaves every object that existed before as it was.
\<close>

lemma analyze_dimensions_call_result:
  assumes "analyze_dimensions_call text h0 = (d, h')"
  shows "deref h' d = analyze_dimensions text"
    and "ref_reasons d = length h0"
    and "length h' = Suc (length h0)"
    and "\<forall>b < length h0. h' ! b = h0 ! b"
proof -
  let ?t = "lower text"
  let ?a = "length h0"
  let ?h1 = "h0 @ [[]]"
  obtain tu hs1 h2 where s1: "time_urgency_step ?t ?a False ?h1 = (tu, hs1, h2)"
    by (metis prod_cases3)
  obtain rl hs2 h3 where s2: "risk_level_step ?t ?a hs1 h2 = (rl, hs2, h3)"
    by (metis prod_cases3)
  obtain pri h4 where s3: "protocol_step ?t ?a h3 = (pri, h4)"
    by (metis surj_pair)
  obtain eo h5 where s4: "evidence_step ?t ?a h4 = (eo, h5)"
    by (metis surj_pair)
  obtain ef h6 where s5: "educational_step ?t ?a h5 = (ef, h6)"
    by (metis surj_pair)
  from assms s1 s2 s3 s4 s5
  have d: "d = \<lparr> ref_time_urgency = tu, ref_risk_level = rl, ref_protocol_independence = pri,
            ref_evidence_orientation = eo, ref_educational_frame = ef,
            ref_reasons = ?a, ref_hard_stop = hs2 \<rparr>" and h': "h' = h6"
    by (simp_all add: analyze_dimensions_call_def new_list_def Let_def)
  note b1 = time_urgency_step_block [OF s1]
  note b2 = risk_level_step_block [OF s2]
  note b3 = protocol_step_block [OF s3]
  note b4 = evidence_step_block [OF s4]
  note b5 = educational_step_block [OF s5]
  have l1: "length ?h1 = Suc ?a" by simp
  have l2: "length h2 = Suc ?a" using b1 l1 by simp
  have l3: "length h3 = Suc ?a" using b2 l2 by simp
  have l4: "length h4 = Suc ?a" using b3 l3 by simp
  have l5: "length h5 = Suc ?a" using b4 l4 by simp
  have l6: "length h6 = Suc ?a" using b5 l5 by simp
  have e1: "time_urgency_block ?t [] False = (tu, h2 ! ?a, hs1)"
    using b1 l1 by simp
  have e2: "risk_level_block ?t (h2 ! ?a) hs1 = (rl, h3 ! ?a, hs2)"
    using b2 l2 by simp
  have e3: "protocol_block ?t (h3 ! ?a) = (pri, h4 ! ?a)"
    using b3 l3 by simp
  have e4: "evidence_block ?t (h4 ! ?a) = (eo, h5 ! ?a)"
    using b4 l4 by simp
  have e5: "educational_block ?t (h5 ! ?a) = (ef, h6 ! ?a)"
    using b5 l5 by simp
  show "deref h' d = analyze_dimensions text"
    by (simp add: d h' deref_def analyze_dimensions_def analyze_lowered_def Let_def
        e1 e2 e3 e4 e5)
  show "ref_reasons d = length h0" by (simp add: d)
  show "length h' = Suc (length h0)" by (simp add: h' l6)
  show "\<forall>b < length h0. h' ! b = h0 ! b"
  proof (intro allI impI)
    fix b assume "b < length h0"
    then have ne: "b \<noteq> ?a" by simp
    have "h6 ! b = h5 ! b" using b5 ne by simp
    also have "\<dots> = h4 ! b" using b4 ne by simp
    also have "\<dots> = h3 ! b" using b3 ne by simp
    also have "\<dots> = h2 ! b" using b2 ne by simp
    also have "\<dots> = ?h1 ! b" using b1 ne by simp
    also have "\<dots> = h0 ! b" using \<open>b < length h0\<close> by (simp add: nth_append)
    finally show "h' ! b = h0 ! b" by (simp add: h')
  qed
qed

section \<open>Claims about the hard stop\<close>

text \<open>
  C1. For every input text, if the analysis sets \<open>hard_stop\<close>, the score the aggregator
  returns for that analysis is at most 3. The second conjunct says that this does not depend
  on the other fields: it holds for every dictionary whose \<open>hard_stop\<close> is set.
\<close>

theorem hard_stop_caps_score:
  "(hard_stop (analyze_dimensions text) \<longrightarrow>
      num_value (compute_ai_usefulness (analyze_dimensions text)) \<le> 3) \<and>
   (\<forall>d. hard_stop d \<longrightarrow> num_value (compute_ai_usefulness d) \<le> 3)"
  by (simp add: compute_ai_usefulness_eq)

text \<open>
  The text below fires the time-critical tier and puts the other four dimensions at their
  most favourable values: the weighted sum is 18, and the score is still capped.
\<close>

theorem hard_stop_caps_score_witness:
  "hard_stop (analyze_dimensions ''code blue: explain the evidence and guidelines for teaching'') \<and>
   spec_raw (analyze_dimensions ''code blue: explain the evidence and guidelines for teaching'') = 18 \<and>
   num_value (compute_ai_usefulness
     (analyze_dimensions ''code blue: explain the evidence and guidelines for teaching'')) \<le> 3"
proof -
  have h: "hard_stop (analyze_dimensions ''code blue: explain the evidence and guidelines for teaching'')"
    by code_simp
  have r: "spec_raw (analyze_dimensions ''code blue: explain the evidence and guidelines for teaching'') = 18"
    by code_simp
  from h r hard_stop_caps_score [of "''code blue: explain the evidence and guidelines for teaching''"]
  show ?thesis by blast
qed

text \<open>
  C2. For every input string, \<open>hard_stop\<close> is set if and only if some phrase of the
  time-critical list or of the high-stakes-intervention list is a substring of the lowered
  input. Here \<open>t\<close> is the lowered input, whatever \<^verbatim>\<open>text.lower()\<close> returned. No other
  list appears on the right-hand side: no other detector sets the flag.
\<close>

theorem hard_stop_iff_trigger:
  "hard_stop (analyze_lowered t) \<longleftrightarrow>
     (\<exists>phrase \<in> set time_critical_terms \<union> set high_risk_terms. substring phrase t)"
  by (auto simp: hard_stop_analyze any_in_iff)

text \<open>
  Instances: a text whose lowering holds \<^verbatim>\<open>tpa\<close>; a text without any trigger; and the
  lowered text \<^verbatim>\<open>shock\<close>, which is also what \<^verbatim>\<open>SHOC\<close> followed by U+212A lowers to.
\<close>

theorem hard_stop_iff_trigger_witness:
  "hard_stop (analyze_dimensions ''Give TPA?'') \<and>
   (\<exists>phrase \<in> set time_critical_terms \<union> set high_risk_terms. substring phrase (lower ''Give TPA?'')) \<and>
   \<not> hard_stop (analyze_dimensions ''explain the evidence'') \<and>
   \<not> (\<exists>phrase \<in> set time_critical_terms \<union> set high_risk_terms.
        substring phrase (lower ''explain the evidence'')) \<and>
   lower (''SHOC'' @ kelvin_sign) = ''shock'' \<and>
   hard_stop (analyze_dimensions (''SHOC'' @ kelvin_sign)) \<and>
   (\<exists>phrase \<in> set time_critical_terms \<union> set high_risk_terms. substring phrase ''shock'')"
proof -
  have a: "hard_stop (analyze_dimensions ''Give TPA?'')" by code_simp
  have b: "\<not> hard_stop (analyze_dimensions ''explain the evidence'')" by code_simp
  have k: "lower (''SHOC'' @ kelvin_sign) = ''shock''" by code_simp
  have c: "hard_stop (analyze_dimensions (''SHOC'' @ kelvin_sign))" by code_simp
  from a b c k hard_stop_iff_trigger [of "lower ''Give TPA?''"]
    hard_stop_iff_trigger [of "lower ''explain the evidence''"]
    hard_stop_iff_trigger [of "''shock''"]
  show ?thesis by (simp add: analyze_dimensions_def)
qed

section \<open>Claims about the aggregator\<close>

text \<open>
  C3. For every combination of dimension scores, each in \<open>[0, 2]\<close>, and every
  \<open>hard_stop\<close> flag: with \<open>raw\<close> the weighted sum of the specification, the aggregator
  returns the clamped value \<open>max 0 (min 10 raw)\<close> when \<open>hard_stop\<close> is false or the clamped
  value is at most 3, and the float 3.0 otherwise. \<open>raw\<close> lies between 0 and 18; from 10
  upwards it is cut to exactly 10, not rescaled, so that without a hard stop the result
  is 10; and the result is always between 0 and 10.
\<close>

theorem aggregator_formula:
  assumes "scores_in_range d"
  shows "compute_ai_usefulness d =
           (if \<not> hard_stop d \<or> spec_clamp (spec_raw d) \<le> 3 then PyInt (spec_clamp (spec_raw d))
            else PyFloat 3) \<and>
         0 \<le> spec_raw d \<and> spec_raw d \<le> 18 \<and>
         (10 \<le> spec_raw d \<longrightarrow> spec_clamp (spec_raw d) = 10) \<and>
         (10 \<le> spec_raw d \<and> \<not> hard_stop d \<longrightarrow> compute_ai_usefulness d = PyInt 10) \<and>
         0 \<le> num_value (compute_ai_usefulness d) \<and> num_value (compute_ai_usefulness d) \<le> 10"
proof -
  have range: "0 \<le> spec_raw d" "spec_raw d \<le> 18"
    using assms by (simp_all add: scores_in_range_def spec_raw_def)
  have sat: "10 \<le> spec_raw d \<Longrightarrow> spec_clamp (spec_raw d) = 10"
    by (simp add: spec_clamp_def)
  have cl: "0 \<le> spec_clamp (spec_raw d)" "spec_clamp (spec_raw d) \<le> 10"
    by (simp_all add: spec_clamp_def)
  have val: "0 \<le> num_value (compute_ai_usefulness d)" "num_value (compute_ai_usefulness d) \<le> 10"
    using cl by (simp_all add: compute_ai_usefulness_eq)
  have eq: "compute_ai_usefulness d =
           (if \<not> hard_stop d \<or> spec_clamp (spec_raw d) \<le> 3 then PyInt (spec_clamp (spec_raw d))
            else PyFloat 3)"
    by (simp add: compute_ai_usefulness_eq)
  from range sat val eq show ?thesis by auto
qed

theorem aggregator_formula_witness:
  "scores_in_range \<lparr> time_urgency = 0, risk_level = 2, protocol_independence = 2,
       evidence_orientation = 1, educational_frame = 2, reasons = [], hard_stop = False \<rparr> \<and>
   spec_raw \<lparr> time_urgency = 0, risk_level = 2, protocol_independence = 2,
       evidence_orientation = 1, educational_frame = 2, reasons = [], hard_stop = False \<rparr> = 16 \<and>
   compute_ai_usefulness \<lparr> time_urgency = 0, risk_level = 2, protocol_independence = 2,
       evidence_orientation = 1, educational_frame = 2, reasons = [], hard_stop = False \<rparr> = PyInt 10"
proof -
  let ?d = "\<lparr> time_urgency = 0, risk_level = 2, protocol_independence = 2,
       evidence_orientation = 1, educational_frame = 2, reasons = [], hard_stop = False \<rparr>"
  have r: "scores_in_range ?d" by (simp add: scores_in_range_def)
  have s: "spec_raw ?d = 16" by (simp add: spec_raw_def)
  from aggregator_formula [OF r] r s show ?thesis by simp
qed

text \<open>
  C10. The hard-stop override only lowers the score. Whenever \<open>hard_stop\<close> is set and the
  clamped weighted score is at most 3, the aggregator returns that clamped score unchanged;
  in every case the result is at most the clamped score. The result can be strictly below
  3: the input \<^verbatim>\<open>ecmo policy\<close> matches a high-risk phrase and a protocol phrase and nothing
  else, its \<open>hard_stop\<close> is set, and its score is 0.
\<close>

theorem hard_stop_only_lowers:
  "(\<forall>d. hard_stop d \<and> spec_clamp (spec_raw d) \<le> 3 \<longrightarrow>
        compute_ai_usefulness d = PyInt (spec_clamp (spec_raw d))) \<and>
   (\<forall>d. num_value (compute_ai_usefulness d) \<le> of_int (spec_clamp (spec_raw d))) \<and>
   analyze_dimensions ''ecmo policy'' =
     \<lparr> time_urgency = 2, risk_level = 0, protocol_independence = 0,
       evidence_orientation = 0, educational_frame = 0,
       reasons = [reason_time_low, reason_risk_high, reason_protocol_low,
                  reason_evidence_low, reason_edu_low],
       hard_stop = True \<rparr> \<and>
   hard_stop (analyze_dimensions ''ecmo policy'') \<and>
   compute_ai_usefulness (analyze_dimensions ''ecmo policy'') = PyInt 0 \<and>
   num_value (compute_ai_usefulness (analyze_dimensions ''ecmo policy'')) < 3"
proof -
  have a: "analyze_dimensions ''ecmo policy'' =
     \<lparr> time_urgency = 2, risk_level = 0, protocol_independence = 0,
       evidence_orientation = 0, educational_frame = 0,
       reasons = [reason_time_low, reason_risk_high, reason_protocol_low,
                  reason_evidence_low, reason_edu_low],
       hard_stop = True \<rparr>"
    by code_simp
  have e: "hard_stop (analyze_dimensions ''ecmo policy'') \<and>
   compute_ai_usefulness (analyze_dimensions ''ecmo policy'') = PyInt 0 \<and>
   num_value (compute_ai_usefulness (analyze_dimensions ''ecmo policy'')) < 3"
    unfolding a by (simp add: compute_ai_usefulness_def)
  have g: "\<forall>d. hard_stop d \<and> spec_clamp (spec_raw d) \<le> 3 \<longrightarrow>
        compute_ai_usefulness d = PyInt (spec_clamp (spec_raw d))"
    by (simp add: compute_ai_usefulness_eq)
  have l: "\<forall>d. num_value (compute_ai_usefulness d) \<le> of_int (spec_clamp (spec_raw d))"
    by (simp add: compute_ai_usefulness_eq)
  from a e g l show ?thesis by blast
qed

theorem hard_stop_only_lowers_witness:
  "hard_stop (analyze_dimensions ''ecmo policy'') \<and>
   spec_clamp (spec_raw (analyze_dimensions ''ecmo policy'')) = 0 \<and>
   compute_ai_usefulness (analyze_dimensions ''ecmo policy'')
     = PyInt (spec_clamp (spec_raw (analyze_dimensions ''ecmo policy'')))"
proof -
  have c: "spec_clamp (spec_raw (analyze_dimensions ''ecmo policy'')) = 0" by code_simp
  from hard_stop_only_lowers c show ?thesis by simp
qed

section \<open>Claims about particular inputs\<close>

text \<open>
  C4. For the empty input the analyzer returns \<open>time_urgency = 2\<close>, \<open>risk_level = 1\<close>,
  \<open>protocol_independence = 2\<close>, \<open>evidence_orientation = 0\<close>, \<open>educational_frame = 0\<close> and
  \<open>hard_stop = False\<close>, and the aggregator returns a score equal to 6 (the integer 6,
  which Python compares equal to 6.0).
\<close>

theorem empty_input:
  "time_urgency (analyze_dimensions []) = 2 \<and>
   risk_level (analyze_dimensions []) = 1 \<and>
   protocol_independence (analyze_dimensions []) = 2 \<and>
   evidence_orientation (analyze_dimensions []) = 0 \<and>
   educational_frame (analyze_dimensions []) = 0 \<and>
   hard_stop (analyze_dimensions []) = False \<and>
   compute_ai_usefulness (analyze_dimensions []) = PyInt 6 \<and>
   num_value (compute_ai_usefulness (analyze_dimensions [])) = 6"
proof -
  have a: "analyze_dimensions [] =
     \<lparr> time_urgency = 2, risk_level = 1, protocol_independence = 2,
       evidence_orientation = 0, educational_frame = 0,
       reasons = [reason_time_low, reason_risk_moderate, reason_protocol_high,
                  reason_evidence_low, reason_edu_low],
       hard_stop = False \<rparr>"
    by code_simp
  show ?thesis unfolding a by (simp add: compute_ai_usefulness_def)
qed

text \<open>
  C6. For the input \<^verbatim>\<open>tpa\<close> the time-urgency and the risk-level detector both fire their
  critical tier: \<open>time_urgency = 0\<close>, \<open>risk_level = 0\<close>, \<open>hard_stop = True\<close>, the other three
  dimensions keep their defaults 2, 0 and 0, the weighted sum is 8, and the score returned
  is the float 3.0.
\<close>

theorem tpa_input:
  "any_in time_critical_terms (lower ''tpa'') \<and> any_in high_risk_terms (lower ''tpa'') \<and>
   analyze_dimensions ''tpa'' =
     \<lparr> time_urgency = 0, risk_level = 0, protocol_independence = 2,
       evidence_orientation = 0, educational_frame = 0,
       reasons = [reason_time_critical, reason_risk_high, reason_protocol_high,
                  reason_evidence_low, reason_edu_low],
       hard_stop = True \<rparr> \<and>
   spec_raw (analyze_dimensions ''tpa'') = 8 \<and>
   compute_ai_usefulness (analyze_dimensions ''tpa'') = PyFloat 3"
proof -
  have a: "analyze_dimensions ''tpa'' =
     \<lparr> time_urgency = 0, risk_level = 0, protocol_independence = 2,
       evidence_orientation = 0, educational_frame = 0,
       reasons = [reason_time_critical, reason_risk_high, reason_protocol_high,
                  reason_evidence_low, reason_edu_low],
       hard_stop = True \<rparr>"
    by code_simp
  have t: "any_in time_critical_terms (lower ''tpa'')" by code_simp
  have h: "any_in high_risk_terms (lower ''tpa'')" by code_simp
  show ?thesis unfolding a using t h by (simp add: compute_ai_usefulness_def spec_raw_def)
qed

text \<open>
  C9. The evidence list holds both \<^verbatim>\<open>guideline\<close> and \<^verbatim>\<open>guidelines\<close>, so the single word
  \<^verbatim>\<open>guidelines\<close> is counted twice: exactly these two phrases match, the hit count is 2,
  and \<open>evidence_orientation\<close> is 2 (the highest tier), not 1.
\<close>

theorem guidelines_counts_twice:
  "filter (\<lambda>phrase. is_in phrase (lower ''guidelines'')) evidence_terms
     = [''guideline'', ''guidelines''] \<and>
   count_in evidence_terms (lower ''guidelines'') = 2 \<and>
   evidence_orientation (analyze_dimensions ''guidelines'') = 2 \<and>
   evidence_orientation (analyze_dimensions ''guidelines'') \<noteq> 1 \<and>
   reasons (analyze_dimensions ''guidelines'') ! 3 = reason_evidence_high"
proof -
  have f: "filter (\<lambda>phrase. is_in phrase (lower ''guidelines'')) evidence_terms
     = [''guideline'', ''guidelines'']" by code_simp
  have c: "count_in evidence_terms (lower ''guidelines'') = 2" by code_simp
  have e: "evidence_orientation (analyze_dimensions ''guidelines'') = 2" by code_simp
  have r: "reasons (analyze_dimensions ''guidelines'') ! 3 = reason_evidence_high" by code_simp
  from f c e r show ?thesis by simp
qed

section \<open>Claims about the analyzer on every input\<close>

text \<open>
  C5. For every input string, \<open>evidence_orientation\<close> is 2 when at least two phrases of
  the evidence list are substrings of the lowered input, 1 when exactly one is, and 0 when
  none is. Here \<open>t\<close> is the lowered input, whatever \<^verbatim>\<open>text.lower()\<close> returned.
\<close>

theorem evidence_orientation_by_count:
  "evidence_orientation (analyze_lowered t) =
     (let n = card {phrase \<in> set evidence_terms. substring phrase t} in
      if n \<ge> 2 then 2 else if n = 1 then 1 else 0)"
  by (simp add: evidence_orientation_analyze any_in_count
      count_in_card [OF distinct_evidence_terms] Let_def)

text \<open>
  Instances: a text with one evidence phrase, and \<^verbatim>\<open>CLASS I\<close> followed by U+0130, whose
  lowering holds \<^verbatim>\<open>class ii\<close>.
\<close>

theorem evidence_orientation_by_count_witness:
  "evidence_orientation (analyze_dimensions ''Is there an RCT?'') = 1 \<and>
   card {phrase \<in> set evidence_terms. substring phrase (lower ''Is there an RCT?'')} = 1 \<and>
   lower (''CLASS I'' @ capital_i_with_dot) = ''class i'' @ small_i_with_dot \<and>
   evidence_orientation (analyze_dimensions (''CLASS I'' @ capital_i_with_dot)) = 1 \<and>
   card {phrase \<in> set evidence_terms.
         substring phrase (lower (''CLASS I'' @ capital_i_with_dot))} = 1"
proof -
  have e: "evidence_orientation (analyze_dimensions ''Is there an RCT?'') = 1" by code_simp
  have l: "lower (''CLASS I'' @ capital_i_with_dot) = ''class i'' @ small_i_with_dot"
    by code_simp
  have f: "evidence_orientation (analyze_dimensions (''CLASS I'' @ capital_i_with_dot)) = 1"
    by code_simp
  from evidence_orientation_by_count [of "lower ''Is there an RCT?''"] e
  have one: "card {phrase \<in> set evidence_terms.
      substring phrase (lower ''Is there an RCT?'')} = 1"
    by (auto simp: analyze_dimensions_def Let_def split: if_splits)
  from evidence_orientation_by_count [of "lower (''CLASS I'' @ capital_i_with_dot)"] f
  have two: "card {phrase \<in> set evidence_terms.
      substring phrase (lower (''CLASS I'' @ capital_i_with_dot))} = 1"
    by (auto simp: analyze_dimensions_def Let_def split: if_splits)
  from e l f one two show ?thesis by simp
qed

text \<open>
  C7. For every input string the analyzer returns exactly five rationale strings, in the
  order time urgency, risk level, protocol independence, evidence orientation, educational
  frame. Each of the five blocks appends exactly one string, one of its own dimension's
  three, to the list it receives; the fifteen rationale strings are pairwise different, so
  each entry names one tier of one dimension.
\<close>

theorem five_rationales_in_order:
  "length (reasons (analyze_dimensions text)) = 5 \<and>
   (\<exists>r1 r2 r3 r4 r5.
      reasons (analyze_dimensions text) = [r1, r2, r3, r4, r5] \<and>
      r1 \<in> set time_reasons \<and> r2 \<in> set risk_reasons \<and> r3 \<in> set protocol_reasons \<and>
      r4 \<in> set evidence_reasons \<and> r5 \<in> set edu_reasons) \<and>
   (\<exists>r \<in> set time_reasons. fst (snd (time_urgency_block t rs hs)) = rs @ [r]) \<and>
   (\<exists>r \<in> set risk_reasons. fst (snd (risk_level_block t rs hs)) = rs @ [r]) \<and>
   (\<exists>r \<in> set protocol_reasons. snd (protocol_block t rs) = rs @ [r]) \<and>
   (\<exists>r \<in> set evidence_reasons. snd (evidence_block t rs) = rs @ [r]) \<and>
   (\<exists>r \<in> set edu_reasons. snd (educational_block t rs) = rs @ [r]) \<and>
   distinct (time_reasons @ risk_reasons @ protocol_reasons @ evidence_reasons @ edu_reasons)"
proof -
  have "length (reasons (analyze_dimensions text)) = 5"
    by (simp add: analyze_dimensions_def reasons_analyze Let_def)
  moreover have "\<exists>r1 r2 r3 r4 r5.
      reasons (analyze_dimensions text) = [r1, r2, r3, r4, r5] \<and>
      r1 \<in> set time_reasons \<and> r2 \<in> set risk_reasons \<and> r3 \<in> set protocol_reasons \<and>
      r4 \<in> set evidence_reasons \<and> r5 \<in> set edu_reasons"
    by (simp add: analyze_dimensions_def reasons_analyze Let_def time_reasons_def risk_reasons_def
        protocol_reasons_def evidence_reasons_def edu_reasons_def)
  ultimately show ?thesis
    using distinct_rationales block_appends_one by blast
qed

text \<open>
  C8. The analyzer is deterministic: two invocations on identical text yield identical
  dimension scores, an identical rationale list and an identical \<open>hard_stop\<close>, and no
  state hidden from the argument influences the result. On the explicit store: whatever
  two stores \<open>h\<close> and \<open>k\<close> two invocations on the same text start from, the dictionaries
  they return read the same. In particular a second invocation that starts from the store
  the first one left behind, after the caller did \<open>between\<close> (anything at all) to it,
  returns what the first returned; and with nothing done in between, the second invocation
  uses a list object of its own and leaves the first result as it was.
\<close>

theorem analyze_dimensions_deterministic:
  "(case analyze_dimensions_call text h of (d1, h1) \<Rightarrow>
    case analyze_dimensions_call text k of (d2, k2) \<Rightarrow>
      deref h1 d1 = deref k2 d2) \<and>
   (case analyze_dimensions_call text h of (d1, h1) \<Rightarrow>
    case analyze_dimensions_call text (between h1) of (d2, h2) \<Rightarrow>
      deref h2 d2 = deref h1 d1) \<and>
   (case analyze_dimensions_call text h of (d1, h1) \<Rightarrow>
    case analyze_dimensions_call text h1 of (d2, h2) \<Rightarrow>
      ref_reasons d2 \<noteq> ref_reasons d1 \<and> deref h2 d1 = deref h1 d1 \<and>
      deref h2 d2 = deref h1 d1)"
proof -
  obtain d1 h1 where c1: "analyze_dimensions_call text h = (d1, h1)"
    by (metis surj_pair)
  obtain d2 k2 where c2: "analyze_dimensions_call text k = (d2, k2)"
    by (metis surj_pair)
  obtain d3 h3 where c3: "analyze_dimensions_call text (between h1) = (d3, h3)"
    by (metis surj_pair)
  obtain d4 h4 where c4: "analyze_dimensions_call text h1 = (d4, h4)"
    by (metis surj_pair)
  note r1 = analyze_dimensions_call_result [OF c1]
  note r2 = analyze_dimensions_call_result [OF c2]
  note r3 = analyze_dimensions_call_result [OF c3]
  note r4 = analyze_dimensions_call_result [OF c4]
  have a: "deref h1 d1 = deref k2 d2" using r1(1) r2(1) by simp
  have b: "deref h3 d3 = deref h1 d1" using r1(1) r3(1) by simp
  have fresh: "ref_reasons d4 \<noteq> ref_reasons d1" using r1(2,3) r4(2) by simp
  have "ref_reasons d1 < length h1" using r1(2,3) by simp
  then have "h4 ! ref_reasons d1 = h1 ! ref_reasons d1" using r4(4) by simp
  then have kept: "deref h4 d1 = deref h1 d1" by (simp add: deref_def)
  have same: "deref h4 d4 = deref h1 d1" using r1(1) r4(1) by simp
  show ?thesis using a b fresh kept same by (simp add: c1 c2 c3 c4)
qed

text \<open>
  An instance: the first invocation on \<^verbatim>\<open>tpa\<close> starts in a store that already holds one
  list; the caller then appends to the rationale list it got back; the second invocation
  still returns the five rationale strings and the scores of the first.
\<close>

theorem analyze_dimensions_deterministic_witness:
  "(case analyze_dimensions_call ''tpa'' [[''old'']] of (d1, h1) \<Rightarrow>
    case analyze_dimensions_call ''tpa'' (list_append (ref_reasons d1) ''edited'' h1)
    of (d2, h2) \<Rightarrow>
      deref h2 d2 = deref h1 d1 \<and>
      deref h1 d1 = analyze_dimensions ''tpa'' \<and>
      length (reasons (deref h2 d2)) = 5 \<and>
      length (reasons (deref h2 d1)) = 6)"
proof -
  obtain d1 h1 where c1: "analyze_dimensions_call ''tpa'' [[''old'']] = (d1, h1)"
    by (metis surj_pair)
  let ?between = "\<lambda>s. list_append (ref_reasons d1) ''edited'' s"
  obtain d2 h2 where c2: "analyze_dimensions_call ''tpa'' (?between h1) = (d2, h2)"
    by (metis surj_pair)
  note r1 = analyze_dimensions_call_result [OF c1]
  note r2 = analyze_dimensions_call_result [OF c2]
  have five: "length (reasons (analyze_dimensions ''tpa'')) = 5"
    by (simp add: analyze_dimensions_def reasons_analyze)
  have main: "deref h2 d2 = deref h1 d1"
    using analyze_dimensions_deterministic
      [where ?text = "''tpa''" and ?h = "[[''old'']]" and ?k = "[]" and ?between = "?between"]
    by (simp add: c1 c2)
  have in_store: "ref_reasons d1 < length h1" using r1(2,3) by simp
  have "reasons (deref h1 d1) = h1 ! ref_reasons d1" by (simp add: deref_def)
  then have old_len: "length (h1 ! ref_reasons d1) = 5" using r1(1) five by simp
  have "h2 ! ref_reasons d1 = ?between h1 ! ref_reasons d1"
    using r2(4) in_store by (simp add: list_append_length)
  also have "\<dots> = h1 ! ref_reasons d1 @ [''edited'']"
    using in_store by (simp add: list_append_nth)
  finally have six: "length (reasons (deref h2 d1)) = 6"
    using old_len by (simp add: deref_def)
  have five': "length (reasons (deref h2 d2)) = 5"
    using main r1(1) five by simp
  show ?thesis
    using main r1(1) five' six by (simp add: c1 c2)
qed

end
